theory Spec2Isabelle
  imports Complex_Main
begin

section \<open>The benchmark types of \<open>executors/base/types.ts\<close>\<close>

text \<open>
  The source file declares TypeScript interfaces, one enum and two unions. TypeScript
  types are structural and erased when the program runs: a value has an interface type
  when it is an object whose required properties are present with the declared types
  and whose optional properties (\<open>name?: T\<close>) are either missing or of type \<open>T\<close>.
  Each declaration is therefore embedded as the membership predicate of its type, over
  the JavaScript values the program handles.
\<close>

subsection \<open>JavaScript values\<close>

text \<open>
  Objects are association lists from property names to values, read with \<open>map_of\<close>.
  A \<open>number\<close> is modelled as a real; the special values NaN and the infinities of
  IEEE doubles are not represented (no declaration of the file tells them apart).
\<close>

datatype jsval =
    JUndefined
  | JNull
  | JBool bool
  | JNum real
  | JStr string
  | JDate real
  | JArr "jsval list"
  | JObj "(string \<times> jsval) list"

text \<open>Reading a property: a missing property, or a property of a non-object, is \<open>undefined\<close>.\<close>

fun getprop :: "jsval \<Rightarrow> string \<Rightarrow> jsval" where
  "getprop (JObj kvs) k = (case map_of kvs k of Some x \<Rightarrow> x | None \<Rightarrow> JUndefined)"
| "getprop v k = JUndefined"

fun is_object :: "jsval \<Rightarrow> bool" where
  "is_object (JObj kvs) = True"
| "is_object v = False"

fun is_string :: "jsval \<Rightarrow> bool" where
  "is_string (JStr s) = True"
| "is_string v = False"

fun is_number :: "jsval \<Rightarrow> bool" where
  "is_number (JNum x) = True"
| "is_number v = False"

fun is_Date :: "jsval \<Rightarrow> bool" where
  "is_Date (JDate t) = True"
| "is_Date v = False"

text \<open>\<open>T[]\<close>: an array all of whose elements have type \<open>T\<close>. The empty array is one.\<close>

fun is_array_of :: "(jsval \<Rightarrow> bool) \<Rightarrow> jsval \<Rightarrow> bool" where
  "is_array_of T (JArr xs) = list_all T xs"
| "is_array_of T v = False"

text \<open>An optional property \<open>name?: T\<close>, given the value read at \<open>name\<close>.\<close>

definition optional :: "(jsval \<Rightarrow> bool) \<Rightarrow> jsval \<Rightarrow> bool" where
  "optional T v \<longleftrightarrow> v = JUndefined \<or> T v"

text \<open>
  \<open>Record<string, any>\<close>: any value that is not a primitive, whatever its properties
  hold.
\<close>

fun is_Record_string_any :: "jsval \<Rightarrow> bool" where
  "is_Record_string_any (JObj kvs) = True"
| "is_Record_string_any (JArr xs) = True"
| "is_Record_string_any (JDate t) = True"
| "is_Record_string_any v = False"

subsection \<open>Types imported from outside the file\<close>

text \<open>
  \<open>K6Options\<close> (\<open>../k6/types\<close>), \<open>Stage\<close> (\<open>k6/options\<close>), \<open>Options\<close> (\<open>autocannon\<close>) and
  \<open>HistogramSummary\<close> (\<open>hdr-histogram-js\<close>) are imported by the file and declared
  elsewhere. The interfaces that mention them take their membership predicates as a
  parameter.
\<close>

record imported_types =
  K6Options :: "jsval \<Rightarrow> bool"
  K6Stage :: "jsval \<Rightarrow> bool"
  AutocannonOptions :: "jsval \<Rightarrow> bool"
  HistogramSummary :: "jsval \<Rightarrow> bool"

text \<open>The weakest choice, used where a closed example is needed: every object is accepted.\<close>

definition any_object_imports :: imported_types where
  "any_object_imports =
     \<lparr>K6Options = is_object, K6Stage = is_object,
      AutocannonOptions = is_object, HistogramSummary = is_object\<rparr>"

subsection \<open>Main types\<close>

text \<open>\<open>ExecutionStrategy\<close>: a union of five string literal types.\<close>

definition is_ExecutionStrategy :: "jsval \<Rightarrow> bool" where
  "is_ExecutionStrategy v \<longleftrightarrow>
     v = JStr ''REQUESTS_PER_SECOND'' \<or>
     v = JStr ''FIXED_REQUEST_NUMBER'' \<or>
     v = JStr ''MAX_REQUESTS_IN_DURATION'' \<or>
     v = JStr ''MULTI_STAGE'' \<or>
     v = JStr ''CUSTOM''"

text \<open>\<open>enum BenchmarkTool\<close> with its string initialisers.\<close>

datatype BenchmarkTool = AUTOCANNON | K6 | WRK2

fun BenchmarkTool_value :: "BenchmarkTool \<Rightarrow> string" where
  "BenchmarkTool_value AUTOCANNON = ''autocannon''"
| "BenchmarkTool_value K6 = ''k6''"
| "BenchmarkTool_value WRK2 = ''wrk2''"

definition is_BenchmarkTool :: "jsval \<Rightarrow> bool" where
  "is_BenchmarkTool v \<longleftrightarrow>
     v = JStr (BenchmarkTool_value AUTOCANNON) \<or>
     v = JStr (BenchmarkTool_value K6) \<or>
     v = JStr (BenchmarkTool_value WRK2)"

text \<open>\<open>interface _BenchmarkRunConfig\<close>, the shared base of the five benchmark configs.\<close>

definition is_BenchmarkRunConfig :: "jsval \<Rightarrow> bool" where
  "is_BenchmarkRunConfig v \<longleftrightarrow>
     is_object v \<and>
     is_string (getprop v ''name'') \<and>
     is_array_of is_BenchmarkTool (getprop v ''tools'') \<and>
     is_ExecutionStrategy (getprop v ''execution_strategy'') \<and>
     is_string (getprop v ''query'') \<and>
     optional is_Record_string_any (getprop v ''variables'') \<and>
     optional is_number (getprop v ''connections'')"

definition is_RequestsPerSecondBenchmark :: "jsval \<Rightarrow> bool" where
  "is_RequestsPerSecondBenchmark v \<longleftrightarrow>
     is_BenchmarkRunConfig v \<and>
     getprop v ''execution_strategy'' = JStr ''REQUESTS_PER_SECOND'' \<and>
     is_number (getprop v ''rps'') \<and>
     is_string (getprop v ''duration'')"

definition is_FixedRequestNumberBenchmark :: "jsval \<Rightarrow> bool" where
  "is_FixedRequestNumberBenchmark v \<longleftrightarrow>
     is_BenchmarkRunConfig v \<and>
     getprop v ''execution_strategy'' = JStr ''FIXED_REQUEST_NUMBER'' \<and>
     is_number (getprop v ''requests'')"

definition is_MaxRequestsInDurationBenchmark :: "jsval \<Rightarrow> bool" where
  "is_MaxRequestsInDurationBenchmark v \<longleftrightarrow>
     is_BenchmarkRunConfig v \<and>
     getprop v ''execution_strategy'' = JStr ''MAX_REQUESTS_IN_DURATION'' \<and>
     is_string (getprop v ''duration'')"

definition is_MultiStageBenchmark :: "imported_types \<Rightarrow> jsval \<Rightarrow> bool" where
  "is_MultiStageBenchmark I v \<longleftrightarrow>
     is_BenchmarkRunConfig v \<and>
     getprop v ''execution_strategy'' = JStr ''MULTI_STAGE'' \<and>
     is_number (getprop v ''initial_rps'') \<and>
     is_array_of (K6Stage I) (getprop v ''stages'')"

text \<open>The type of \<open>CustomBenchmark.options\<close>: \<open>{ k6?: K6Options; autocannon?: AutocannonOptions }\<close>.\<close>

definition is_CustomOptions :: "imported_types \<Rightarrow> jsval \<Rightarrow> bool" where
  "is_CustomOptions I v \<longleftrightarrow>
     is_object v \<and>
     optional (K6Options I) (getprop v ''k6'') \<and>
     optional (AutocannonOptions I) (getprop v ''autocannon'')"

definition is_CustomBenchmark :: "imported_types \<Rightarrow> jsval \<Rightarrow> bool" where
  "is_CustomBenchmark I v \<longleftrightarrow>
     is_BenchmarkRunConfig v \<and>
     getprop v ''execution_strategy'' = JStr ''CUSTOM'' \<and>
     is_CustomOptions I (getprop v ''options'')"

text \<open>\<open>type Benchmark\<close>, the union of the five configs.\<close>

definition is_Benchmark :: "imported_types \<Rightarrow> jsval \<Rightarrow> bool" where
  "is_Benchmark I v \<longleftrightarrow>
     is_RequestsPerSecondBenchmark v \<or>
     is_FixedRequestNumberBenchmark v \<or>
     is_MaxRequestsInDurationBenchmark v \<or>
     is_MultiStageBenchmark I v \<or>
     is_CustomBenchmark I v"

subsection \<open>Utility types\<close>

definition is_HDRHistogramParsedStats :: "jsval \<Rightarrow> bool" where
  "is_HDRHistogramParsedStats v \<longleftrightarrow>
     is_object v \<and>
     is_string (getprop v ''value'') \<and>
     is_string (getprop v ''percentile'') \<and>
     is_string (getprop v ''totalCount'') \<and>
     is_string (getprop v ''ofOnePercentile'')"

text \<open>\<open>interface HistogramSummaryWithEtc extends HistogramSummary\<close>.\<close>

definition is_HistogramSummaryWithEtc :: "imported_types \<Rightarrow> jsval \<Rightarrow> bool" where
  "is_HistogramSummaryWithEtc I v \<longleftrightarrow>
     HistogramSummary I v \<and>
     is_object v \<and>
     is_number (getprop v ''mean'') \<and>
     optional is_number (getprop v ''geoMean'') \<and>
     optional is_number (getprop v ''p501stHalf'') \<and>
     optional is_number (getprop v ''p501stQuarter'') \<and>
     optional is_number (getprop v ''p501stEighth'') \<and>
     optional is_number (getprop v ''geoMean1stHalf'') \<and>
     optional is_number (getprop v ''geoMean1stQuarter'') \<and>
     optional is_number (getprop v ''geoMean1stEighth'') \<and>
     is_number (getprop v ''min'') \<and>
     is_number (getprop v ''stdDeviation'')"

definition is_HistBucket :: "jsval \<Rightarrow> bool" where
  "is_HistBucket v \<longleftrightarrow>
     is_object v \<and>
     is_number (getprop v ''gte'') \<and>
     is_number (getprop v ''count'') \<and>
     is_number (getprop v ''count1stHalf'')"

definition is_BasicHistogram :: "jsval \<Rightarrow> bool" where
  "is_BasicHistogram v \<longleftrightarrow>
     is_object v \<and>
     is_array_of is_HistBucket (getprop v ''buckets'') \<and>
     is_number (getprop v ''outliersRemoved'')"

text \<open>The object types written inline in \<open>interface BenchmarkMetrics\<close>.\<close>

definition is_string_or_Date :: "jsval \<Rightarrow> bool" where
  "is_string_or_Date v \<longleftrightarrow> is_string v \<or> is_Date v"

definition is_MetricsTime :: "jsval \<Rightarrow> bool" where
  "is_MetricsTime v \<longleftrightarrow>
     is_object v \<and>
     is_string_or_Date (getprop v ''start'') \<and>
     is_string_or_Date (getprop v ''end'')"

definition is_MetricsRequests :: "jsval \<Rightarrow> bool" where
  "is_MetricsRequests v \<longleftrightarrow>
     is_object v \<and>
     is_number (getprop v ''count'') \<and>
     is_number (getprop v ''average'')"

definition is_MetricsResponse :: "jsval \<Rightarrow> bool" where
  "is_MetricsResponse v \<longleftrightarrow>
     is_object v \<and>
     is_number (getprop v ''totalBytes'') \<and>
     is_number (getprop v ''bytesPerSecond'')"

definition is_MetricsHistogram :: "imported_types \<Rightarrow> jsval \<Rightarrow> bool" where
  "is_MetricsHistogram I v \<longleftrightarrow>
     is_object v \<and>
     is_HistogramSummaryWithEtc I (getprop v ''json'') \<and>
     is_array_of is_HDRHistogramParsedStats (getprop v ''parsedStats'')"

definition is_ExtendedHasuraChecks :: "jsval \<Rightarrow> bool" where
  "is_ExtendedHasuraChecks v \<longleftrightarrow>
     is_object v \<and>
     is_number (getprop v ''bytes_allocated_per_request'') \<and>
     is_number (getprop v ''live_bytes_before'') \<and>
     is_number (getprop v ''live_bytes_after'') \<and>
     is_number (getprop v ''mem_in_use_bytes_before'') \<and>
     is_number (getprop v ''mem_in_use_bytes_after'')"

definition is_BenchmarkMetrics :: "imported_types \<Rightarrow> jsval \<Rightarrow> bool" where
  "is_BenchmarkMetrics I v \<longleftrightarrow>
     is_object v \<and>
     is_string (getprop v ''name'') \<and>
     is_MetricsTime (getprop v ''time'') \<and>
     is_MetricsRequests (getprop v ''requests'') \<and>
     is_MetricsResponse (getprop v ''response'') \<and>
     is_MetricsHistogram I (getprop v ''histogram'') \<and>
     optional is_BasicHistogram (getprop v ''basicHistogram'') \<and>
     optional is_ExtendedHasuraChecks (getprop v ''extended_hasura_checks'')"


subsection \<open>Example values\<close>

definition example_parsed_row :: jsval where
  "example_parsed_row =
     JObj [(''value'', JStr ''0.457''), (''percentile'', JStr ''0.500000''),
           (''totalCount'', JStr ''5172''), (''ofOnePercentile'', JStr ''2.00'')]"

definition example_summary :: jsval where
  "example_summary =
     JObj [(''p50'', JNum 3), (''p75'', JNum 4), (''p90'', JNum 6), (''p97_5'', JNum 7),
           (''p99'', JNum 8), (''p99_9'', JNum 9), (''p99_99'', JNum 9), (''p99_999'', JNum 9),
           (''max'', JNum 9), (''totalCount'', JNum 100),
           (''mean'', JNum 4), (''min'', JNum 1), (''stdDeviation'', JNum 2)]"

definition example_metrics :: jsval where
  "example_metrics =
     JObj [(''name'', JStr ''SearchAlbums''),
           (''time'', JObj [(''start'', JStr ''2021-01-01T00:00:00Z''), (''end'', JDate 1609459260000)]),
           (''requests'', JObj [(''count'', JNum 100), (''average'', JNum 50)]),
           (''response'', JObj [(''totalBytes'', JNum 20000), (''bytesPerSecond'', JNum 1000)]),
           (''histogram'', JObj [(''json'', example_summary), (''parsedStats'', JArr [example_parsed_row])]),
           (''extended_hasura_checks'',
              JObj [(''bytes_allocated_per_request'', JNum 4096),
                    (''live_bytes_before'', JNum 1000), (''live_bytes_after'', JNum 1100),
                    (''mem_in_use_bytes_before'', JNum 2000), (''mem_in_use_bytes_after'', JNum 2100)])]"

definition example_fixed_no_tools :: jsval where
  "example_fixed_no_tools =
     JObj [(''name'', JStr ''NoTools''), (''tools'', JArr []),
           (''execution_strategy'', JStr ''FIXED_REQUEST_NUMBER''),
           (''query'', JStr ''query { albums { id } }''), (''requests'', JNum 1000)]"

definition example_rps :: jsval where
  "example_rps =
     JObj [(''name'', JStr ''Rps''), (''tools'', JArr [JStr ''k6'', JStr ''wrk2'']),
           (''execution_strategy'', JStr ''REQUESTS_PER_SECOND''),
           (''query'', JStr ''query { albums { id } }''),
           (''rps'', JNum 500), (''duration'', JStr ''60s'')]"

definition example_custom_empty_options :: jsval where
  "example_custom_empty_options =
     JObj [(''name'', JStr ''Custom''), (''tools'', JArr [JStr ''k6'']),
           (''execution_strategy'', JStr ''CUSTOM''),
           (''query'', JStr ''query { albums { id } }''), (''options'', JObj [])]"

definition example_custom_k6 :: jsval where
  "example_custom_k6 =
     JObj [(''name'', JStr ''Custom''), (''tools'', JArr [JStr ''k6'']),
           (''execution_strategy'', JStr ''CUSTOM''),
           (''query'', JStr ''query { albums { id } }''),
           (''options'', JObj [(''k6'', JObj [(''vus'', JNum 10)])])]"


section \<open>The basic histogram builder\<close>

text \<open>
  \<open>interface HistBucket\<close> and \<open>interface BasicHistogram\<close> as data, for the builder to
  compute with. Counts are naturals.
\<close>

record HistBucket =
  gte :: real
  count :: nat
  count1stHalf :: nat


text \<open>
  Modelled from the spec: the function that builds a \<open>BasicHistogram\<close> (the comment on
  \<open>HistBucket\<close> calls it \<open>histogram()\<close>) is not among the source files. The definitions
  of this section follow the Basic Histogram Builder of the specification, section 4.4.
  Its configuration fixes the bucket boundaries, here by an explicit list of lower
  bounds, and the acceptable range, here by a maximum bound.
\<close>

record builder_config =
  bounds :: "real list"
  maxBound :: real

text \<open>
  Modelled from the spec: the state of the builder while the stream is consumed: the
  buckets filled so far and the number of samples excluded as outliers.
\<close>

record builder =
  slots :: "HistBucket list"
  outliers :: nat

text \<open>
  Modelled from the spec: a sample is an outlier when it falls outside the acceptable
  range, which here runs from the first bucket's lower bound to the configured maximum
  bound, both included. Section 4.4 gives a sample no third outcome: any latency below
  the first bound, a negative one included, is an outlier.
\<close>

definition is_outlier :: "builder_config \<Rightarrow> real \<Rightarrow> bool" where
  "is_outlier cfg x \<longleftrightarrow>
     (case bounds cfg of [] \<Rightarrow> True | g # gs \<Rightarrow> x < g) \<or> maxBound cfg < x"

text \<open>
  Modelled from the spec: a bucket counts the samples at or above its \<open>gte\<close> within its
  range, so a sample belongs to the last of the leading bounds that are at most the sample.
\<close>

definition bucket_index :: "real list \<Rightarrow> real \<Rightarrow> nat" where
  "bucket_index gs x = length (takeWhile (\<lambda>g. g \<le> x) gs) - 1"

text \<open>
  Modelled from the spec: counting one sample in a bucket; \<open>count1stHalf\<close> counts it too
  when the sample is of the first half of the stream.
\<close>

definition bump :: "bool \<Rightarrow> HistBucket \<Rightarrow> HistBucket" where
  "bump firstHalf b =
     b\<lparr>count := count b + 1,
       count1stHalf := (if firstHalf then count1stHalf b + 1 else count1stHalf b)\<rparr>"

text \<open>
  Modelled from the spec: \<open>record(latency, arrivalIndex, totalExpectedCount)\<close>. An
  outlier is counted in \<open>outliersRemoved\<close> and in no bucket; any other sample is counted
  in its bucket, and in \<open>count1stHalf\<close> too when its arrival index (from 0) lies in the
  first 50 percent of the total count.
\<close>

definition record_sample :: "builder_config \<Rightarrow> real \<Rightarrow> nat \<Rightarrow> nat \<Rightarrow> builder \<Rightarrow> builder" where
  "record_sample cfg latency arrivalIndex totalExpectedCount st =
     (if is_outlier cfg latency then st\<lparr>outliers := outliers st + 1\<rparr>
      else
        let k = bucket_index (bounds cfg) latency in
        if k < length (slots st)
        then st\<lparr>slots := (slots st)[k := bump (2 * arrivalIndex < totalExpectedCount) (slots st ! k)]\<rparr>
        else st)"


text \<open>
  Modelled from the spec: consuming the stream in arrival order; \<open>n\<close> is the total count
  and \<open>i\<close> the arrival index of the next sample.
\<close>

fun record_stream :: "builder_config \<Rightarrow> nat \<Rightarrow> nat \<Rightarrow> real list \<Rightarrow> builder \<Rightarrow> builder" where
  "record_stream cfg n i [] st = st"
| "record_stream cfg n i (x # xs) st = record_stream cfg n (Suc i) xs (record_sample cfg x i n st)"







section \<open>The precise histogram\<close>

text \<open>
  Modelled from the spec: the class \<open>PreciseHdrHistogram\<close>, imported by the file from
  \<open>../../PreciseHdrHistogram\<close>, is not among the source files. By sections 3 and 4.3 of
  the specification it is an accumulator of latency samples with a configured maximum
  trackable value and significant-digit precision, with the operations \<open>record\<close>,
  \<open>merge\<close>, \<open>percentile\<close> and \<open>totalCount\<close>.
\<close>

record hdr_config =
  highestTrackableValue :: real
  significantDigits :: nat

text \<open>
  Modelled from the spec: the bucket ranges are "logarithmic with linear subdivision". The
  specification gives no formula for them, so the layout is a parameter: the number of
  buckets of a configuration, the bucket of a value and the value reported for a bucket.
\<close>

record layout =
  bucketCount :: "hdr_config \<Rightarrow> nat"
  bucketOf :: "hdr_config \<Rightarrow> real \<Rightarrow> nat"
  valueAt :: "hdr_config \<Rightarrow> nat \<Rightarrow> real"

text \<open>Modelled from the spec: a histogram is its configuration and one count for each bucket.\<close>

record PreciseHdrHistogram =
  config :: hdr_config
  counts :: "nat list"

text \<open>Modelled from the spec: the \<open>HistogramError\<close> of section 7, by cause.\<close>

datatype HistogramError = NegativeLatency | NotTrackable | ConfigurationMismatch

text \<open>Modelled from the spec: a histogram with nothing recorded.\<close>

definition create :: "layout \<Rightarrow> hdr_config \<Rightarrow> PreciseHdrHistogram" where
  "create L cfg = \<lparr>config = cfg, counts = replicate (bucketCount L cfg) 0\<rparr>"

text \<open>
  Modelled from the spec: \<open>record(latency)\<close>. A negative latency is rejected (section 7),
  as is a value beyond the maximum trackable value or outside the buckets; any other
  sample adds one to the count of its bucket.
\<close>

definition recordValue ::
  "layout \<Rightarrow> real \<Rightarrow> PreciseHdrHistogram \<Rightarrow> HistogramError + PreciseHdrHistogram" where
  "recordValue L latency h =
     (if latency < 0 then Inl NegativeLatency
      else
        let k = bucketOf L (config h) latency in
        if highestTrackableValue (config h) < latency \<or> length (counts h) \<le> k
        then Inl NotTrackable
        else Inr (h\<lparr>counts := (counts h)[k := counts h ! k + 1]\<rparr>))"

text \<open>
  Modelled from the spec: recording a stream of samples. A rejected sample is dropped
  and the stream goes on (section 7).
\<close>

fun recordAll :: "layout \<Rightarrow> real list \<Rightarrow> PreciseHdrHistogram \<Rightarrow> PreciseHdrHistogram" where
  "recordAll L [] h = h"
| "recordAll L (x # xs) h =
     recordAll L xs (case recordValue L x h of Inl e \<Rightarrow> h | Inr h' \<Rightarrow> h')"

text \<open>
  Modelled from the spec: \<open>merge(other)\<close> adds the other histogram's counts, bucket by
  bucket. It is defined for histograms of identical configuration.
\<close>

definition merge ::
  "PreciseHdrHistogram \<Rightarrow> PreciseHdrHistogram \<Rightarrow> HistogramError + PreciseHdrHistogram" where
  "merge h other =
     (if config h = config other
      then Inr (h\<lparr>counts := map2 (+) (counts h) (counts other)\<rparr>)
      else Inl ConfigurationMismatch)"

text \<open>Modelled from the spec: \<open>totalCount\<close>, the number of samples recorded.\<close>

definition totalCount :: "PreciseHdrHistogram \<Rightarrow> nat" where
  "totalCount h = sum_list (counts h)"

text \<open>
  Modelled from the spec: a percentile is "the value below which a given percentage of
  recorded samples fall". \<open>bucket_reaching target k seen cs\<close> walks the counts \<open>cs\<close> of
  the buckets from \<open>k\<close> on, \<open>seen\<close> samples lying in the buckets before, and returns the
  first bucket at which the running count reaches the target.
\<close>

fun bucket_reaching :: "real \<Rightarrow> nat \<Rightarrow> nat \<Rightarrow> nat list \<Rightarrow> nat option" where
  "bucket_reaching target k seen [] = None"
| "bucket_reaching target k seen (c # cs) =
     (if target \<le> real (seen + c) then Some k
      else bucket_reaching target (Suc k) (seen + c) cs)"

text \<open>
  Modelled from the spec: \<open>percentile(p)\<close>, the value of the first bucket at which the
  running count reaches \<open>p\<close> percent of the total count. \<open>p\<close> is accepted in (0, 100].
\<close>

definition percentile :: "layout \<Rightarrow> PreciseHdrHistogram \<Rightarrow> real \<Rightarrow> real option" where
  "percentile L h p =
     (if p \<le> 0 \<or> 100 < p then None
      else map_option (valueAt L (config h))
             (bucket_reaching (p / 100 * real (totalCount h)) 0 0 (counts h)))"

text \<open>
  An example layout: buckets one unit wide, bucket \<open>k\<close> holding the values from \<open>k\<close> up
  to \<open>k + 1\<close> and reporting \<open>k\<close>; and two example histograms over it.
\<close>

definition unit_layout :: layout where
  "unit_layout =
     \<lparr>bucketCount = (\<lambda>cfg. nat \<lfloor>highestTrackableValue cfg\<rfloor> + 1),
      bucketOf = (\<lambda>cfg x. nat \<lfloor>x\<rfloor>),
      valueAt = (\<lambda>cfg k. real k)\<rparr>"

definition example_hdr_config :: hdr_config where
  "example_hdr_config = \<lparr>highestTrackableValue = 5, significantDigits = 3\<rparr>"

definition example_empty :: PreciseHdrHistogram where
  "example_empty = create unit_layout example_hdr_config"

definition example_recorded :: PreciseHdrHistogram where
  "example_recorded = \<lparr>config = example_hdr_config, counts = [0, 1, 0, 2, 0, 0]\<rparr>"


section \<open>Properties of the declared types\<close>

lemmas benchmark_defs = is_Benchmark_def is_RequestsPerSecondBenchmark_def
  is_FixedRequestNumberBenchmark_def is_MaxRequestsInDurationBenchmark_def
  is_MultiStageBenchmark_def is_CustomBenchmark_def

lemmas metrics_defs = is_BenchmarkMetrics_def is_MetricsTime_def is_MetricsRequests_def
  is_MetricsResponse_def is_MetricsHistogram_def is_string_or_Date_def

lemma is_string_elim: "is_string x \<Longrightarrow> \<exists>s. x = JStr s"
  by (cases x) simp_all

lemma is_array_of_elems:
  assumes "is_array_of T v"
  shows "\<exists>xs. v = JArr xs \<and> (\<forall>x \<in> set xs. T x)"
  using assms by (cases v) (simp_all add: list_all_iff)

lemma Benchmark_is_RunConfig: "is_Benchmark I v \<Longrightarrow> is_BenchmarkRunConfig v"
  by (auto simp: benchmark_defs)

lemma example_parsed_row_ok: "is_HDRHistogramParsedStats example_parsed_row"
  by (simp add: is_HDRHistogramParsedStats_def example_parsed_row_def)

lemma example_metrics_ok: "is_BenchmarkMetrics any_object_imports example_metrics"
  by (simp add: metrics_defs is_HistogramSummaryWithEtc_def is_ExtendedHasuraChecks_def
      optional_def any_object_imports_def example_metrics_def example_summary_def
      example_parsed_row_def is_HDRHistogramParsedStats_def)

lemma example_rps_ok: "is_Benchmark any_object_imports example_rps"
  by (simp add: benchmark_defs is_BenchmarkRunConfig_def is_BenchmarkTool_def
      is_ExecutionStrategy_def optional_def example_rps_def)

lemma example_custom_k6_ok: "is_Benchmark any_object_imports example_custom_k6"
  by (simp add: benchmark_defs is_BenchmarkRunConfig_def is_BenchmarkTool_def
      is_ExecutionStrategy_def is_CustomOptions_def optional_def any_object_imports_def
      example_custom_k6_def)

lemma example_custom_k6_tag:
  "getprop example_custom_k6 ''execution_strategy'' = JStr ''CUSTOM''"
  by (simp add: example_custom_k6_def)

text \<open>
  Claim C5, as the declaration has it: every \<open>BenchmarkMetrics\<close> record holds \<open>name\<close>,
  \<open>time {start, end}\<close>, \<open>requests {count, average}\<close>, \<open>response {totalBytes,
  bytesPerSecond}\<close> and a \<open>histogram\<close> object whose two fields are named \<open>json\<close> and
  \<open>parsedStats\<close>, plus an optional \<open>basicHistogram\<close> and an optional
  \<open>extended_hasura_checks\<close> block.
\<close>

theorem BenchmarkMetrics_fields:
  assumes "is_BenchmarkMetrics I v"
  shows "is_string (getprop v ''name'') \<and>
         is_string_or_Date (getprop (getprop v ''time'') ''start'') \<and>
         is_string_or_Date (getprop (getprop v ''time'') ''end'') \<and>
         is_number (getprop (getprop v ''requests'') ''count'') \<and>
         is_number (getprop (getprop v ''requests'') ''average'') \<and>
         is_number (getprop (getprop v ''response'') ''totalBytes'') \<and>
         is_number (getprop (getprop v ''response'') ''bytesPerSecond'') \<and>
         is_HistogramSummaryWithEtc I (getprop (getprop v ''histogram'') ''json'') \<and>
         is_array_of is_HDRHistogramParsedStats (getprop (getprop v ''histogram'') ''parsedStats'') \<and>
         optional is_BasicHistogram (getprop v ''basicHistogram'') \<and>
         optional is_ExtendedHasuraChecks (getprop v ''extended_hasura_checks'')"
  using assms by (simp add: metrics_defs)

theorem BenchmarkMetrics_fields_witness:
  "is_BenchmarkMetrics any_object_imports example_metrics \<and>
   is_string (getprop example_metrics ''name'') \<and>
   getprop (getprop example_metrics ''histogram'') ''json'' = example_summary \<and>
   getprop (getprop example_metrics ''histogram'') ''parsedStats'' = JArr [example_parsed_row] \<and>
   getprop example_metrics ''basicHistogram'' = JUndefined"
  using BenchmarkMetrics_fields [OF example_metrics_ok] example_metrics_ok
  by (simp add: example_metrics_def)

text \<open>
  The claim as the specification words it names the first field of \<open>histogram\<close>
  \<open>summary\<close>. A well-typed record has no such field.
\<close>

theorem BenchmarkMetrics_summary_counterexample:
  "is_BenchmarkMetrics any_object_imports example_metrics \<and>
   getprop (getprop example_metrics ''histogram'') ''summary'' = JUndefined"
  using example_metrics_ok by (simp add: example_metrics_def)

text \<open>
  Claim C6, as the declaration has it: in every \<open>Benchmark\<close>, of any of the five
  variants, \<open>tools\<close> is an array whose elements are drawn from \<open>autocannon\<close>, \<open>k6\<close> and
  \<open>wrk2\<close>. The array may be empty.
\<close>

theorem Benchmark_tools_from_enum:
  assumes "is_Benchmark I v"
  shows "\<exists>ts. getprop v ''tools'' = JArr ts \<and>
           (\<forall>t \<in> set ts. t = JStr ''autocannon'' \<or> t = JStr ''k6'' \<or> t = JStr ''wrk2'')"
proof -
  from assms have "is_array_of is_BenchmarkTool (getprop v ''tools'')"
    by (simp add: Benchmark_is_RunConfig [unfolded is_BenchmarkRunConfig_def])
  then obtain ts where "getprop v ''tools'' = JArr ts" "\<forall>t \<in> set ts. is_BenchmarkTool t"
    using is_array_of_elems by blast
  then show ?thesis by (auto simp: is_BenchmarkTool_def)
qed

theorem Benchmark_tools_from_enum_witness:
  "is_Benchmark any_object_imports example_rps \<and>
   getprop example_rps ''tools'' = JArr [JStr ''k6'', JStr ''wrk2'']"
  using Benchmark_tools_from_enum [OF example_rps_ok] example_rps_ok
  by (simp add: example_rps_def)

text \<open>A benchmark whose \<open>tools\<close> is the empty array has the type \<open>Benchmark\<close>.\<close>

theorem Benchmark_empty_tools_counterexample:
  "is_Benchmark any_object_imports example_fixed_no_tools \<and>
   getprop example_fixed_no_tools ''tools'' = JArr []"
  by (simp add: benchmark_defs is_BenchmarkRunConfig_def is_BenchmarkTool_def
      is_ExecutionStrategy_def optional_def example_fixed_no_tools_def)

text \<open>
  Claim C7, as the declaration has it: in every \<open>Benchmark\<close> whose \<open>execution_strategy\<close>
  is \<open>CUSTOM\<close>, \<open>options\<close> is an object whose entry \<open>k6\<close>, when present, is a
  \<open>K6Options\<close> and whose entry \<open>autocannon\<close>, when present, is an autocannon
  \<open>Options\<close>. Neither entry is required, whatever the declared tools.
\<close>

theorem CustomBenchmark_options:
  assumes "is_Benchmark I v" "getprop v ''execution_strategy'' = JStr ''CUSTOM''"
  shows "is_object (getprop v ''options'') \<and>
         optional (K6Options I) (getprop (getprop v ''options'') ''k6'') \<and>
         optional (AutocannonOptions I) (getprop (getprop v ''options'') ''autocannon'')"
proof -
  from assms have "is_CustomBenchmark I v"
    by (auto simp: benchmark_defs)
  then show ?thesis by (simp add: is_CustomBenchmark_def is_CustomOptions_def)
qed

theorem CustomBenchmark_options_witness:
  "is_Benchmark any_object_imports example_custom_k6 \<and>
   getprop example_custom_k6 ''execution_strategy'' = JStr ''CUSTOM'' \<and>
   getprop (getprop example_custom_k6 ''options'') ''k6'' = JObj [(''vus'', JNum 10)] \<and>
   getprop (getprop example_custom_k6 ''options'') ''autocannon'' = JUndefined"
  using CustomBenchmark_options [OF example_custom_k6_ok example_custom_k6_tag]
    example_custom_k6_ok
  by (simp add: example_custom_k6_def)

text \<open>
  A \<open>CUSTOM\<close> benchmark that declares the tool \<open>k6\<close> and whose \<open>options\<close> holds no entry
  at all has the type \<open>Benchmark\<close>.
\<close>

theorem CustomBenchmark_no_options_counterexample:
  "is_Benchmark any_object_imports example_custom_empty_options \<and>
   getprop example_custom_empty_options ''execution_strategy'' = JStr ''CUSTOM'' \<and>
   getprop example_custom_empty_options ''tools'' = JArr [JStr ''k6''] \<and>
   getprop example_custom_empty_options ''options'' = JObj []"
  by (simp add: benchmark_defs is_BenchmarkRunConfig_def is_BenchmarkTool_def
      is_ExecutionStrategy_def is_CustomOptions_def optional_def any_object_imports_def
      example_custom_empty_options_def)

text \<open>
  Claim C9: every row of the parsed histogram stats carries its four fields \<open>value\<close>,
  \<open>percentile\<close>, \<open>totalCount\<close> and \<open>ofOnePercentile\<close> as strings, not numbers.
\<close>

theorem HDRHistogramParsedStats_strings:
  assumes "is_HDRHistogramParsedStats v"
  shows "(\<exists>a b c d. getprop v ''value'' = JStr a \<and> getprop v ''percentile'' = JStr b \<and>
            getprop v ''totalCount'' = JStr c \<and> getprop v ''ofOnePercentile'' = JStr d) \<and>
         \<not> is_number (getprop v ''value'') \<and> \<not> is_number (getprop v ''percentile'') \<and>
         \<not> is_number (getprop v ''totalCount'') \<and> \<not> is_number (getprop v ''ofOnePercentile'')"
proof -
  from assms have s: "is_string (getprop v ''value'')" "is_string (getprop v ''percentile'')"
      "is_string (getprop v ''totalCount'')" "is_string (getprop v ''ofOnePercentile'')"
    by (simp_all add: is_HDRHistogramParsedStats_def)
  from s is_string_elim show ?thesis by fastforce
qed

theorem HDRHistogramParsedStats_strings_witness:
  "is_HDRHistogramParsedStats example_parsed_row \<and>
   getprop example_parsed_row ''value'' = JStr ''0.457'' \<and>
   \<not> is_number (getprop example_parsed_row ''totalCount'')"
  using HDRHistogramParsedStats_strings [OF example_parsed_row_ok] example_parsed_row_ok
  by (simp add: example_parsed_row_def)

text \<open>
  Claim C10: whenever the optional \<open>extended_hasura_checks\<close> block is present in a
  \<open>BenchmarkMetrics\<close> record, it holds all five numeric fields
  \<open>bytes_allocated_per_request\<close>, \<open>live_bytes_before\<close>, \<open>live_bytes_after\<close>,
  \<open>mem_in_use_bytes_before\<close> and \<open>mem_in_use_bytes_after\<close>.
\<close>

theorem extended_hasura_checks_complete:
  assumes "is_BenchmarkMetrics I v" "getprop v ''extended_hasura_checks'' \<noteq> JUndefined"
  shows "is_number (getprop (getprop v ''extended_hasura_checks'') ''bytes_allocated_per_request'') \<and>
         is_number (getprop (getprop v ''extended_hasura_checks'') ''live_bytes_before'') \<and>
         is_number (getprop (getprop v ''extended_hasura_checks'') ''live_bytes_after'') \<and>
         is_number (getprop (getprop v ''extended_hasura_checks'') ''mem_in_use_bytes_before'') \<and>
         is_number (getprop (getprop v ''extended_hasura_checks'') ''mem_in_use_bytes_after'')"
  using assms by (simp add: is_BenchmarkMetrics_def optional_def is_ExtendedHasuraChecks_def)

theorem extended_hasura_checks_complete_witness:
  "is_BenchmarkMetrics any_object_imports example_metrics \<and>
   getprop example_metrics ''extended_hasura_checks'' \<noteq> JUndefined \<and>
   getprop (getprop example_metrics ''extended_hasura_checks'') ''live_bytes_after'' = JNum 1100"
proof -
  have present: "getprop example_metrics ''extended_hasura_checks'' \<noteq> JUndefined"
    by (simp add: example_metrics_def)
  from extended_hasura_checks_complete [OF example_metrics_ok present] example_metrics_ok present
  show ?thesis by (simp add: example_metrics_def)
qed

section \<open>Properties of the basic histogram builder\<close>



lemma length_slots_record_sample [simp]:
  "length (slots (record_sample cfg x i n st)) = length (slots st)"
  by (simp add: record_sample_def Let_def)



lemma record_stream_length [simp]:
  "length (slots (record_stream cfg n i xs st)) = length (slots st)"
  by (induction xs arbitrary: i st) simp_all






section \<open>Properties of the precise histogram\<close>

subsection \<open>Adding counts bucket by bucket\<close>

lemma map2_add_commute: "map2 (+) xs ys = map2 (+) ys (xs :: nat list)"
  by (induction xs ys rule: list_induct2') simp_all

lemma map2_add_assoc:
  "map2 (+) (map2 (+) xs ys) zs = map2 (+) xs (map2 (+) ys (zs :: nat list))"
proof (induction xs arbitrary: ys zs)
  case Nil
  then show ?case by simp
next
  case (Cons x xs)
  then show ?case by (cases ys; cases zs) (simp_all add: add.assoc)
qed

lemma map2_add_zero: "length xs = n \<Longrightarrow> map2 (+) (replicate n 0) xs = (xs :: nat list)"
  by (induction xs arbitrary: n) auto

lemma map2_add_update:
  assumes "length xs = length ys"
  shows "map2 (+) (xs[k := Suc (xs ! k)]) ys = (map2 (+) xs ys)[k := Suc (xs ! k + ys ! k)]"
  using assms
proof (induction xs ys arbitrary: k rule: list_induct2)
  case Nil
  then show ?case by simp
next
  case (Cons x xs y ys)
  then show ?case by (cases k) simp_all
qed

subsection \<open>Recording and merging\<close>

lemma length_counts_recordAll [simp]:
  "length (counts (recordAll L xs h)) = length (counts h)"
  by (induction xs arbitrary: h) (simp_all add: recordValue_def Let_def)

lemma config_recordAll [simp]: "config (recordAll L xs h) = config h"
  by (induction xs arbitrary: h) (simp_all add: recordValue_def Let_def)

lemma recordAll_append: "recordAll L (xs @ ys) h = recordAll L ys (recordAll L xs h)"
  by (induction xs arbitrary: h) simp_all

lemma same_config_update:
  fixes a b :: PreciseHdrHistogram
  shows "config a = config b \<Longrightarrow> a\<lparr>counts := cs\<rparr> = b\<lparr>counts := cs\<rparr>"
  by (cases a, cases b) simp

text \<open>
  Recording a stream into a histogram that already holds the counts \<open>cs\<close> on top of \<open>h\<close>
  gives what recording into \<open>h\<close> gives, with \<open>cs\<close> on top: a sample is rejected in one
  exactly when it is rejected in the other.
\<close>

lemma recordAll_onto:
  assumes "length (counts h) = length cs"
  shows "recordAll L xs (h\<lparr>counts := map2 (+) (counts h) cs\<rparr>) =
         (recordAll L xs h)\<lparr>counts := map2 (+) (counts (recordAll L xs h)) cs\<rparr>"
  using assms
proof (induction xs arbitrary: h)
  case Nil
  then show ?case by simp
next
  case (Cons x xs)
  let ?h' = "h\<lparr>counts := map2 (+) (counts h) cs\<rparr>"
  show ?case
  proof (cases "recordValue L x h")
    case (Inl e)
    then have "recordValue L x ?h' = Inl e"
      using Cons.prems by (simp add: recordValue_def Let_def split: if_splits)
    with Inl Cons show ?thesis by simp
  next
    case (Inr g)
    then have g: "g = h\<lparr>counts :=
          (counts h)[bucketOf L (config h) x := counts h ! bucketOf L (config h) x + 1]\<rparr>"
      and ok: "\<not> x < 0" "\<not> highestTrackableValue (config h) < x"
        "bucketOf L (config h) x < length (counts h)"
      by (auto simp: recordValue_def Let_def split: if_splits)
    have "recordValue L x ?h' = Inr (g\<lparr>counts := map2 (+) (counts g) cs\<rparr>)"
      using ok Cons.prems by (simp add: recordValue_def Let_def g map2_add_update)
    moreover have "length (counts g) = length cs"
      using Cons.prems by (simp add: g)
    ultimately show ?thesis using Inr Cons.IH [of g] by simp
  qed
qed

lemma create_onto:
  assumes "config h = cfg" "length (counts h) = bucketCount L cfg"
  shows "(create L cfg)\<lparr>counts := map2 (+) (counts (create L cfg)) (counts h)\<rparr> = h"
  using assms by (simp add: create_def map2_add_zero)

lemma merge_same_config:
  "config h = config other \<Longrightarrow>
     merge h other = Inr (h\<lparr>counts := map2 (+) (counts h) (counts other)\<rparr>)"
  by (simp add: merge_def)

lemma merge_commute:
  assumes "config h1 = config h2"
  shows "merge h2 h1 = merge h1 h2"
proof -
  have "h2\<lparr>counts := map2 (+) (counts h1) (counts h2)\<rparr> =
        h1\<lparr>counts := map2 (+) (counts h1) (counts h2)\<rparr>"
    by (rule same_config_update) (simp add: assms)
  then show ?thesis
    using assms by (simp add: merge_def map2_add_commute [of "counts h2"])
qed

lemma merge_recorded:
  "merge (recordAll L xs (create L cfg)) (recordAll L ys (create L cfg)) =
     Inr (recordAll L (xs @ ys) (create L cfg))"
proof -
  let ?e = "create L cfg"
  let ?X = "recordAll L xs ?e" and ?Y = "recordAll L ys ?e"
  have X: "config ?X = cfg" "length (counts ?X) = bucketCount L cfg"
    by (simp_all add: create_def)
  have "recordAll L (xs @ ys) ?e = recordAll L ys ?X"
    by (rule recordAll_append)
  also have "\<dots> = recordAll L ys (?e\<lparr>counts := map2 (+) (counts ?e) (counts ?X)\<rparr>)"
    by (simp only: create_onto [OF X])
  also have "\<dots> = ?Y\<lparr>counts := map2 (+) (counts ?Y) (counts ?X)\<rparr>"
    by (rule recordAll_onto) simp
  also have "\<dots> = ?X\<lparr>counts := map2 (+) (counts ?X) (counts ?Y)\<rparr>"
    unfolding map2_add_commute [of "counts ?X"] by (rule same_config_update) simp
  finally show ?thesis by (simp add: merge_def)
qed

lemma example_empty_eq:
  "example_empty = \<lparr>config = example_hdr_config, counts = [0, 0, 0, 0, 0, 0]\<rparr>"
  by (simp add: example_empty_def create_def unit_layout_def example_hdr_config_def
      numeral_eq_Suc)

lemma example_recordAll:
  "recordAll unit_layout ([1, 3.5] @ [3, 7, -1]) example_empty = example_recorded"
  by (simp add: example_empty_eq recordValue_def unit_layout_def example_hdr_config_def
      example_recorded_def)

text \<open>
  Claim C1: for histograms built with identical configuration, \<open>merge\<close> is commutative
  and associative, and merging the histograms of two sample streams gives, in either
  order, the histogram of the concatenated stream, so that every percentile query gives
  the same result on both.
\<close>

theorem merge_commutative_associative:
  assumes "config h1 = cfg" "config h2 = cfg" "config h3 = cfg"
  shows "(\<exists>m. merge h1 h2 = Inr m \<and> merge h2 h1 = Inr m) \<and>
         (\<exists>a b m. merge h1 h2 = Inr a \<and> merge a h3 = Inr m \<and>
                  merge h2 h3 = Inr b \<and> merge h1 b = Inr m) \<and>
         merge (recordAll L xs (create L cfg)) (recordAll L ys (create L cfg)) =
           Inr (recordAll L (xs @ ys) (create L cfg)) \<and>
         merge (recordAll L ys (create L cfg)) (recordAll L xs (create L cfg)) =
           Inr (recordAll L (xs @ ys) (create L cfg)) \<and>
         (\<exists>m. merge (recordAll L xs (create L cfg)) (recordAll L ys (create L cfg)) = Inr m \<and>
              percentile L m p = percentile L (recordAll L (xs @ ys) (create L cfg)) p)"
proof -
  let ?a = "h1\<lparr>counts := map2 (+) (counts h1) (counts h2)\<rparr>"
  let ?b = "h2\<lparr>counts := map2 (+) (counts h2) (counts h3)\<rparr>"
  let ?m = "h1\<lparr>counts := map2 (+) (counts h1) (map2 (+) (counts h2) (counts h3))\<rparr>"
  have a: "merge h1 h2 = Inr ?a"
    by (rule merge_same_config) (simp add: assms)
  have a': "merge h2 h1 = Inr ?a"
    using a merge_commute [of h1 h2] assms by simp
  have b: "merge h2 h3 = Inr ?b"
    by (rule merge_same_config) (simp add: assms)
  have "merge ?a h3 = Inr (?a\<lparr>counts := map2 (+) (counts ?a) (counts h3)\<rparr>)"
    by (rule merge_same_config) (simp add: assms)
  then have am: "merge ?a h3 = Inr ?m"
    by (simp add: map2_add_assoc)
  have "merge h1 ?b = Inr (h1\<lparr>counts := map2 (+) (counts h1) (counts ?b)\<rparr>)"
    by (rule merge_same_config) (simp add: assms)
  then have bm: "merge h1 ?b = Inr ?m"
    by simp
  have swap: "merge (recordAll L ys (create L cfg)) (recordAll L xs (create L cfg)) =
      merge (recordAll L xs (create L cfg)) (recordAll L ys (create L cfg))"
    by (rule merge_commute) simp
  from a a' have c1: "\<exists>m. merge h1 h2 = Inr m \<and> merge h2 h1 = Inr m" by blast
  from a am b bm have c2: "\<exists>a b m. merge h1 h2 = Inr a \<and> merge a h3 = Inr m \<and>
                  merge h2 h3 = Inr b \<and> merge h1 b = Inr m" by blast
  have m1: "merge (recordAll L xs (create L cfg)) (recordAll L ys (create L cfg)) =
      Inr (recordAll L (xs @ ys) (create L cfg))"
    by (rule merge_recorded)
  from swap m1
  have m2: "merge (recordAll L ys (create L cfg)) (recordAll L xs (create L cfg)) =
      Inr (recordAll L (xs @ ys) (create L cfg))"
    by simp
  from m1
  have m3: "\<exists>m. merge (recordAll L xs (create L cfg)) (recordAll L ys (create L cfg)) = Inr m \<and>
      percentile L m p = percentile L (recordAll L (xs @ ys) (create L cfg)) p"
    by simp
  from c1 c2 m1 m2 m3 show ?thesis by (intro conjI)
qed

theorem merge_commutative_associative_witness:
  "merge (recordAll unit_layout [1, 3.5] example_empty)
         (recordAll unit_layout [3, 7, -1] example_empty) = Inr example_recorded \<and>
   merge (recordAll unit_layout [3, 7, -1] example_empty)
         (recordAll unit_layout [1, 3.5] example_empty) = Inr example_recorded"
proof -
  have c: "config (recordAll unit_layout [1, 3.5] example_empty) = example_hdr_config"
    "config (recordAll unit_layout [3, 7, -1] example_empty) = example_hdr_config"
    "config example_empty = example_hdr_config"
    unfolding config_recordAll by (simp_all add: example_empty_eq)
  note T = merge_commutative_associative [OF c, of unit_layout "[1, 3.5]" "[3, 7, -1]" 50]
  from T show ?thesis
    unfolding example_empty_def [symmetric] example_recordAll by blast
qed

subsection \<open>Percentiles\<close>

lemma bucket_reaching_bounds:
  "bucket_reaching t k s cs = Some a \<Longrightarrow> k \<le> a \<and> a < k + length cs"
proof (induction cs arbitrary: k s)
  case Nil
  then show ?case by simp
next
  case (Cons c cs)
  show ?case
  proof (cases "t \<le> real (s + c)")
    case True
    with Cons.prems show ?thesis by simp
  next
    case False
    with Cons.prems have "bucket_reaching t (Suc k) (s + c) cs = Some a" by simp
    from Cons.IH [OF this] show ?thesis by simp
  qed
qed

text \<open>A larger target is reached no earlier.\<close>

lemma bucket_reaching_mono:
  assumes "t1 \<le> t2" "bucket_reaching t1 k s cs = Some a" "bucket_reaching t2 k s cs = Some b"
  shows "a \<le> b"
  using assms
proof (induction cs arbitrary: k s)
  case Nil
  then show ?case by simp
next
  case (Cons c cs)
  show ?case
  proof (cases "t1 \<le> real (s + c)")
    case True
    with Cons.prems(2) have "a = k" by simp
    moreover from Cons.prems(3) have "k \<le> b"
      by (rule bucket_reaching_bounds [THEN conjunct1])
    ultimately show ?thesis by simp
  next
    case False
    with Cons.prems(1) have "\<not> t2 \<le> real (s + c)" by linarith
    with False Cons.prems Cons.IH show ?thesis by simp
  qed
qed

text \<open>A target of at most the total count is reached in some bucket.\<close>

lemma bucket_reaching_total:
  assumes "cs \<noteq> []" "t \<le> real (s + sum_list cs)"
  shows "\<exists>a. bucket_reaching t k s cs = Some a"
  using assms
proof (induction cs arbitrary: k s)
  case Nil
  then show ?case by simp
next
  case (Cons c cs)
  show ?case
  proof (cases "t \<le> real (s + c)")
    case True
    then show ?thesis by simp
  next
    case False
    with Cons.prems(2) have "cs \<noteq> []" by auto
    moreover from Cons.prems(2) have "t \<le> real ((s + c) + sum_list cs)"
      by (simp add: add.assoc)
    ultimately have "\<exists>a. bucket_reaching t (Suc k) (s + c) cs = Some a"
      by (rule Cons.IH)
    with False show ?thesis by simp
  qed
qed

lemma example_percentiles:
  "percentile unit_layout example_recorded 10 = Some 1"
  "percentile unit_layout example_recorded 50 = Some 3"
  by (simp_all add: percentile_def example_recorded_def totalCount_def unit_layout_def)

text \<open>
  Claim C3: in every histogram state, with bucket values that do not decrease from one
  bucket to the next, \<open>percentile\<close> is defined on (0, 100] and monotonically
  non-decreasing: for \<open>p1 < p2\<close> in that range, \<open>percentile(p1) \<le> percentile(p2)\<close>.
\<close>

theorem percentile_monotone:
  assumes p: "0 < p1" "p1 < p2" "p2 \<le> 100"
    and nonempty: "counts h \<noteq> []"
    and mono: "\<forall>i j. i \<le> j \<longrightarrow> valueAt L (config h) i \<le> valueAt L (config h) j"
  shows "\<exists>a b. percentile L h p1 = Some a \<and> percentile L h p2 = Some b \<and> a \<le> b"
proof -
  let ?n = "real (totalCount h)"
  have n: "0 \<le> ?n" by simp
  from p have le: "p1 / 100 * ?n \<le> p2 / 100 * ?n"
    by (intro mult_right_mono) simp_all
  from p have "p2 / 100 \<le> 1" by simp
  then have "p2 / 100 * ?n \<le> 1 * ?n" using n by (rule mult_right_mono)
  then have t2: "p2 / 100 * ?n \<le> real (0 + sum_list (counts h))"
    by (simp add: totalCount_def)
  with le have t1: "p1 / 100 * ?n \<le> real (0 + sum_list (counts h))" by linarith
  from bucket_reaching_total [OF nonempty t1] obtain a
    where a: "bucket_reaching (p1 / 100 * ?n) 0 0 (counts h) = Some a" by blast
  from bucket_reaching_total [OF nonempty t2] obtain b
    where b: "bucket_reaching (p2 / 100 * ?n) 0 0 (counts h) = Some b" by blast
  from le a b have "a \<le> b" by (rule bucket_reaching_mono)
  with mono have "valueAt L (config h) a \<le> valueAt L (config h) b" by blast
  with a b p show ?thesis by (simp add: percentile_def)
qed

theorem percentile_monotone_witness:
  "percentile unit_layout example_recorded 10 = Some 1 \<and>
   percentile unit_layout example_recorded 50 = Some 3"
proof -
  have nonempty: "counts example_recorded \<noteq> []"
    by (simp add: example_recorded_def)
  have mono: "\<forall>i j. i \<le> j \<longrightarrow>
      valueAt unit_layout (config example_recorded) i \<le> valueAt unit_layout (config example_recorded) j"
    by (simp add: unit_layout_def)
  have "\<exists>a b. percentile unit_layout example_recorded 10 = Some a \<and>
      percentile unit_layout example_recorded 50 = Some b \<and> a \<le> b"
    by (rule percentile_monotone [OF _ _ _ nonempty mono]) simp_all
  then show ?thesis by (simp add: example_percentiles)
qed

end
